theory Spec2Isabelle
  imports Main
begin

section \<open>Values shared by the hooks\<close>

text \<open>
  Addresses, transaction hashes and contract names are JavaScript strings. A variable that
  may hold \<^verbatim>\<open>null\<close> or \<^verbatim>\<open>undefined\<close> is an option, \<open>None\<close> standing for both.
  An ethers \<^verbatim>\<open>BigNumber\<close> is an unbounded integer.
\<close>

type_synonym address = string
type_synonym bignum = int
type_synonym abi = "string list"
type_synonym provider = nat
type_synonym txresponse = string

text \<open>JavaScript truthiness of a string-or-null: \<^verbatim>\<open>!x\<close> holds for null, undefined and \<^verbatim>\<open>''\<close>.\<close>

definition truthy :: "string option \<Rightarrow> bool" where
  "truthy x = (case x of None \<Rightarrow> False | Some s \<Rightarrow> s \<noteq> [])"

text \<open>
  Modelled from the spec: \<^verbatim>\<open>bigNum\<close> (of \<^verbatim>\<open>./utils\<close>, which is not among the sources)
  makes the big integer of a number. Balances and amounts are big-integer quantities and
  the unknown balance is \<open>-1\<close>: on \<open>int\<close> the conversion is the identity.
\<close>

definition bigNum :: "int \<Rightarrow> bignum" where
  "bigNum n = n"

text \<open>A default parameter (\<^verbatim>\<open>signer = true\<close>, \<^verbatim>\<open>toAnj = true\<close>): the default replaces \<^verbatim>\<open>undefined\<close>.\<close>

definition orDefault :: "'a \<Rightarrow> 'a option \<Rightarrow> 'a" where
  "orDefault d x = (case x of None \<Rightarrow> d | Some v \<Rightarrow> v)"

section \<open>Connector weight\<close>

definition MAINNET_CONNECTOR_WEIGHT :: nat where
  "MAINNET_CONNECTOR_WEIGHT = 250000"

definition RINKEBY_CONNECTOR_WEIGHT :: nat where
  "RINKEBY_CONNECTOR_WEIGHT = 33333"

definition RETRY_EVERY :: nat where
  "RETRY_EVERY = 1000"

definition connectorWeights :: "string \<rightharpoonup> nat" where
  "connectorWeights = map_of
     [(''MAINNET_CONNECTOR_WEIGHT'', MAINNET_CONNECTOR_WEIGHT),
      (''RINKEBY_CONNECTOR_WEIGHT'', RINKEBY_CONNECTOR_WEIGHT)]"

text \<open>
  \<^verbatim>\<open>environment\<close> (of \<^verbatim>\<open>lib/environment\<close>) is not among the sources: it is a parameter,
  a lookup of configuration strings. \<^verbatim>\<open>Map.get\<close> answers \<^verbatim>\<open>undefined\<close> on a missing key,
  so the result is an option.
\<close>

definition getConnectorWeight :: "(string \<Rightarrow> string option) \<Rightarrow> nat option" where
  "getConnectorWeight environment =
     (let chainId = environment ''CHAIN_ID'' in
      connectorWeights
        (if chainId = Some ''1'' then ''MAINNET_CONNECTOR_WEIGHT''
         else ''RINKEBY_CONNECTOR_WEIGHT''))"

section \<open>Contract handles and their cache\<close>

text \<open>
  A handle is the object \<^verbatim>\<open>new EthersContract(address, abi, signerOrProvider)\<close>. Its
  identity is the field \<open>ref\<close>: the number of handles constructed before it.
\<close>

datatype signerOrProvider = Signer provider | Provider provider

record contract =
  ref :: nat
  target :: address
  iface :: abi
  runner :: signerOrProvider

text \<open>
  The module-level \<^verbatim>\<open>contractsCache\<close>, a JavaScript \<^verbatim>\<open>Map\<close> keyed by the address string,
  with the count of constructed handles beside it.
\<close>

record cache =
  contractsCache :: "address \<rightharpoonup> contract"
  constructed :: nat

definition emptyCache :: cache where
  "emptyCache = \<lparr>contractsCache = Map.empty, constructed = 0\<rparr>"

definition useContract ::
  "provider option \<Rightarrow> address option \<Rightarrow> abi \<Rightarrow> bool option \<Rightarrow> cache
     \<Rightarrow> contract option \<times> cache" where
  "useContract ethersProvider address abi signer st =
     (case ethersProvider of
        None \<Rightarrow> (None, st)
      | Some p \<Rightarrow>
          (case address of
             None \<Rightarrow> (None, st)
           | Some a \<Rightarrow>
               if a = [] then (None, st)
               else
                 (case contractsCache st a of
                    Some c \<Rightarrow> (Some c, st)
                  | None \<Rightarrow>
                      (let contract =
                             \<lparr>ref = constructed st, target = a, iface = abi,
                              runner = (if orDefault True signer then Signer p else Provider p)\<rparr>
                       in (Some contract,
                           st\<lparr>contractsCache := (contractsCache st)(a \<mapsto> contract),
                              constructed := Suc (constructed st)\<rparr>)))))"

text \<open>
  \<^verbatim>\<open>getKnownContract\<close> (of \<^verbatim>\<open>./known-contracts\<close>) is not among the sources: it is a
  parameter, from a name to the pair of an address and an interface descriptor.
\<close>

definition useKnownContract ::
  "(string \<Rightarrow> address option \<times> abi) \<Rightarrow> provider option \<Rightarrow> string \<Rightarrow> bool option \<Rightarrow> cache
     \<Rightarrow> contract option \<times> cache" where
  "useKnownContract getKnownContract ethersProvider name signer st =
     (case getKnownContract name of
        (address, abi) \<Rightarrow> useContract ethersProvider address abi signer st)"

text \<open>Any number of calls of \<^verbatim>\<open>useContract\<close>, one after the other, on the shared cache.\<close>

fun useContracts ::
  "(provider option \<times> address option \<times> abi \<times> bool option) list \<Rightarrow> cache \<Rightarrow> cache" where
  "useContracts [] st = st"
| "useContracts ((ethersProvider, address, abi, signer) # rest) st =
     useContracts rest (snd (useContract ethersProvider address abi signer st))"

section \<open>Calls into the blockchain layer\<close>

text \<open>
  Every contract method and the transaction lookup return a promise. A promise either
  resolves with a value or rejects; reading a property of \<^verbatim>\<open>null\<close> throws a
  \<^verbatim>\<open>TypeError\<close>, which an \<^verbatim>\<open>async\<close> function turns into a rejection too. The string of
  \<open>TypeError\<close> is the property that was read.
\<close>

datatype error = TypeError string | Rejected string

text \<open>The overrides object of a transaction: \<open>val\<close> is its \<^verbatim>\<open>value\<close> field, when given.\<close>

record overrides =
  gasLimit :: nat
  val :: "nat option"

text \<open>What \<^verbatim>\<open>getTransaction\<close> resolves to; a transaction not yet mined has no block number.\<close>

record txinfo =
  blockNumber :: "nat option"

datatype call =
    Allowance contract "address option" "address option"
  | Approve contract "address option" int
  | OpenBuyOrder contract "address option" int overrides
  | OpenSellOrder contract "address option" int overrides
  | ClaimBuyOrder contract "address option" "nat option" "address option" overrides
  | ClaimSellOrder contract "address option" "nat option" "address option" overrides
  | GetTransaction provider string
  | BalanceOf contract "address option"
  | TotalSupply contract
  | CalculatePurchaseReturn contract bignum bignum "nat option" int
  | CalculateSaleReturn contract bignum bignum "nat option" int

text \<open>
  The blockchain layer, as the order and allowance flows see it: how each call they make
  is answered. It is a parameter of the flows.
\<close>

record chain =
  allowance :: "contract \<Rightarrow> address option \<Rightarrow> address option \<Rightarrow> error + bignum"
  approve :: "contract \<Rightarrow> address option \<Rightarrow> int \<Rightarrow> error + txresponse"
  openBuyOrder :: "contract \<Rightarrow> address option \<Rightarrow> int \<Rightarrow> overrides \<Rightarrow> error + txresponse"
  openSellOrder :: "contract \<Rightarrow> address option \<Rightarrow> int \<Rightarrow> overrides \<Rightarrow> error + txresponse"
  claimBuyOrder ::
    "contract \<Rightarrow> address option \<Rightarrow> nat option \<Rightarrow> address option \<Rightarrow> overrides \<Rightarrow> error + txresponse"
  claimSellOrder ::
    "contract \<Rightarrow> address option \<Rightarrow> nat option \<Rightarrow> address option \<Rightarrow> overrides \<Rightarrow> error + txresponse"
  getTransaction :: "provider \<Rightarrow> string \<Rightarrow> error + txinfo option"

text \<open>
  What an \<^verbatim>\<open>async\<close> callback settles to: \<open>Inl\<close> a rejection, \<open>Inr\<close> the returned value,
  with the calls it made, in order.
\<close>

datatype retval = RetFalse | RetUndefined | RetTx txresponse

type_synonym outcome = "(error + retval) \<times> call list"

definition returned :: "error + txresponse \<Rightarrow> error + retval" where
  "returned r = (case r of Inl e \<Rightarrow> Inl e | Inr t \<Rightarrow> Inr (RetTx t))"

section \<open>Allowance and order flows\<close>

text \<open>The callback \<^verbatim>\<open>useAllowance\<close> returns, over the variables it closes over.\<close>

definition useAllowance_callback ::
  "chain \<Rightarrow> address option \<Rightarrow> contract option \<Rightarrow> address option \<Rightarrow> int \<Rightarrow> outcome" where
  "useAllowance_callback ch account antContract marketMakerAddress amount =
     (case antContract of
        None \<Rightarrow> (Inr RetFalse, [])
      | Some c \<Rightarrow>
          (case allowance ch c account marketMakerAddress of
             Inl e \<Rightarrow> (Inl e, [Allowance c account marketMakerAddress])
           | Inr a \<Rightarrow>
               if a < bigNum amount
               then (returned (approve ch c marketMakerAddress amount),
                     [Allowance c account marketMakerAddress, Approve c marketMakerAddress amount])
               else (Inr RetUndefined, [Allowance c account marketMakerAddress])))"

definition useAllowance ::
  "chain \<Rightarrow> (string \<Rightarrow> address option \<times> abi) \<Rightarrow> address option \<Rightarrow> provider option \<Rightarrow> cache
     \<Rightarrow> (int \<Rightarrow> outcome) \<times> cache" where
  "useAllowance ch getKnownContract account ethersProvider st =
     (case useKnownContract getKnownContract ethersProvider ''TOKEN_ANT'' None st of
        (antContract, st') \<Rightarrow>
          (case getKnownContract ''MARKET_MAKER'' of
             (marketMakerAddress, _) \<Rightarrow>
               (useAllowance_callback ch account antContract marketMakerAddress, st')))"

definition useOpenOrder_callback ::
  "chain \<Rightarrow> contract option \<Rightarrow> address option \<Rightarrow> int \<Rightarrow> bool option \<Rightarrow> outcome" where
  "useOpenOrder_callback ch fundraisingContract antAddress amount toAnj =
     (case fundraisingContract of
        None \<Rightarrow> (Inr RetFalse, [])
      | Some c \<Rightarrow>
          if orDefault True toAnj
          then (returned (openBuyOrder ch c antAddress amount \<lparr>gasLimit = 650000, val = Some 0\<rparr>),
                [OpenBuyOrder c antAddress amount \<lparr>gasLimit = 650000, val = Some 0\<rparr>])
          else (returned (openSellOrder ch c antAddress amount \<lparr>gasLimit = 850000, val = None\<rparr>),
                [OpenSellOrder c antAddress amount \<lparr>gasLimit = 850000, val = None\<rparr>]))"

definition useOpenOrder ::
  "chain \<Rightarrow> (string \<Rightarrow> address option \<times> abi) \<Rightarrow> provider option \<Rightarrow> cache
     \<Rightarrow> (int \<Rightarrow> bool option \<Rightarrow> outcome) \<times> cache" where
  "useOpenOrder ch getKnownContract ethersProvider st =
     (case useKnownContract getKnownContract ethersProvider ''FUNDRAISING'' None st of
        (fundraisingContract, st') \<Rightarrow>
          (case getKnownContract ''TOKEN_ANT'' of
             (antAddress, _) \<Rightarrow> (useOpenOrder_callback ch fundraisingContract antAddress, st')))"

text \<open>
  The callback of \<^verbatim>\<open>useClaimOrder\<close>. It reads \<^verbatim>\<open>ethersProvider.getTransaction\<close> first, then
  destructures \<^verbatim>\<open>blockNumber\<close> from what the lookup resolved to (\<^verbatim>\<open>null\<close> when no such
  transaction is known), then reads the claim method of \<^verbatim>\<open>fundraisingContract\<close>. Nothing
  tests either handle for \<^verbatim>\<open>null\<close>.
\<close>

definition useClaimOrder_callback ::
  "chain \<Rightarrow> address option \<Rightarrow> provider option \<Rightarrow> contract option \<Rightarrow> address option
     \<Rightarrow> string \<Rightarrow> bool option \<Rightarrow> outcome" where
  "useClaimOrder_callback ch account ethersProvider fundraisingContract antAddress
       openOrderTransactionHash toAnj =
     (case ethersProvider of
        None \<Rightarrow> (Inl (TypeError ''getTransaction''), [])
      | Some p \<Rightarrow>
          (case getTransaction ch p openOrderTransactionHash of
             Inl e \<Rightarrow> (Inl e, [GetTransaction p openOrderTransactionHash])
           | Inr None \<Rightarrow> (Inl (TypeError ''blockNumber''), [GetTransaction p openOrderTransactionHash])
           | Inr (Some tx) \<Rightarrow>
               (let batchId = blockNumber tx in
                case fundraisingContract of
                  None \<Rightarrow>
                    (Inl (TypeError (if orDefault True toAnj then ''claimBuyOrder''
                                     else ''claimSellOrder'')),
                     [GetTransaction p openOrderTransactionHash])
                | Some c \<Rightarrow>
                    if orDefault True toAnj
                    then (returned (claimBuyOrder ch c account batchId antAddress
                                      \<lparr>gasLimit = 500000, val = None\<rparr>),
                          [GetTransaction p openOrderTransactionHash,
                           ClaimBuyOrder c account batchId antAddress
                             \<lparr>gasLimit = 500000, val = None\<rparr>])
                    else (returned (claimSellOrder ch c account batchId antAddress
                                      \<lparr>gasLimit = 500000, val = None\<rparr>),
                          [GetTransaction p openOrderTransactionHash,
                           ClaimSellOrder c account batchId antAddress
                             \<lparr>gasLimit = 500000, val = None\<rparr>]))))"

definition useClaimOrder ::
  "chain \<Rightarrow> (string \<Rightarrow> address option \<times> abi) \<Rightarrow> address option \<Rightarrow> provider option \<Rightarrow> cache
     \<Rightarrow> (string \<Rightarrow> bool option \<Rightarrow> outcome) \<times> cache" where
  "useClaimOrder ch getKnownContract account ethersProvider st =
     (case useKnownContract getKnownContract ethersProvider ''FUNDRAISING'' None st of
        (fundraisingContract, st') \<Rightarrow>
          (case getKnownContract ''TOKEN_ANT'' of
             (antAddress, _) \<Rightarrow>
               (useClaimOrder_callback ch account ethersProvider fundraisingContract antAddress,
                st')))"

text \<open>Whether a call submits a transaction (the others only read).\<close>

fun submits :: "call \<Rightarrow> bool" where
  "submits (Approve _ _ _) = True"
| "submits (OpenBuyOrder _ _ _ _) = True"
| "submits (OpenSellOrder _ _ _ _) = True"
| "submits (ClaimBuyOrder _ _ _ _ _) = True"
| "submits (ClaimSellOrder _ _ _ _ _) = True"
| "submits _ = False"

section \<open>Balance tracker\<close>

text \<open>
  \<^verbatim>\<open>useTokenBalance\<close> is a React hook: its state is the \<^verbatim>\<open>balance\<close>, the ref
  \<^verbatim>\<open>cancelBalanceUpdate\<close> and the \<^verbatim>\<open>Transfer\<close> listener its effect registered. Each run of
  \<^verbatim>\<open>updateBalance\<close> that reaches \<^verbatim>\<open>balanceOf\<close> has a variable \<^verbatim>\<open>cancelled\<close> of its
  own, closed over by the promise's continuation and by the function stored in the ref: these
  are the entries of \<open>fetches\<close>, in the order the queries were issued, and the ref holds the
  index of the entry its function cancels. An entry is \<open>pending\<close> until its promise settles.
\<close>

record closure =
  cancelled :: bool

record fetch = closure +
  pending :: bool
  query :: call

record tracker =
  balance :: bignum
  fetches :: "fetch list"
  cancelBalanceUpdate :: "nat option"
  listener :: "(address option \<times> address option \<times> contract) option"

definition initTracker :: tracker where
  "initTracker =
     \<lparr>balance = bigNum (- 1), fetches = [], cancelBalanceUpdate = None, listener = None\<rparr>"

text \<open>Calling the function in the ref: \<^verbatim>\<open>cancelled = true\<close> in the closure it belongs to.\<close>

definition cancelFetch :: "nat \<Rightarrow> fetch list \<Rightarrow> fetch list" where
  "cancelFetch i fs = (if i < length fs then fs[i := (fs ! i)\<lparr>cancelled := True\<rparr>] else fs)"

definition updateBalance ::
  "address option \<Rightarrow> address option \<Rightarrow> contract option \<Rightarrow> tracker \<Rightarrow> tracker" where
  "updateBalance account address tokenContract s =
     (let s1 = (case cancelBalanceUpdate s of
                  Some i \<Rightarrow> s\<lparr>fetches := cancelFetch i (fetches s), cancelBalanceUpdate := None\<rparr>
                | None \<Rightarrow> s)
      in case tokenContract of
           None \<Rightarrow> s1\<lparr>balance := bigNum (- 1)\<rparr>
         | Some c \<Rightarrow>
             if \<not> truthy account \<and> \<not> truthy address then s1\<lparr>balance := bigNum (- 1)\<rparr>
             else
               (let requestedAddress = (if truthy address then address else account)
                in s1\<lparr>cancelBalanceUpdate := Some (length (fetches s1)),
                      fetches := fetches s1 @
                        [\<lparr>cancelled = False, pending = True,
                          query = BalanceOf c requestedAddress\<rparr>]\<rparr>))"

text \<open>
  The promise of fetch \<open>i\<close> settles: the continuation \<^verbatim>\<open>balance => { if (!cancelled)
  setBalance(balance) }\<close> runs when it resolves, nothing runs when it rejects.
\<close>

definition balanceSettled :: "nat \<Rightarrow> error + bignum \<Rightarrow> tracker \<Rightarrow> tracker" where
  "balanceSettled i r s =
     (if i < length (fetches s) \<and> pending (fetches s ! i)
      then (let f = fetches s ! i;
                s1 = s\<lparr>fetches := (fetches s)[i := f\<lparr>pending := False\<rparr>]\<rparr>
            in case r of
                 Inl e \<Rightarrow> s1
               | Inr b \<Rightarrow> if cancelled f then s1 else s1\<lparr>balance := b\<rparr>)
      else s)"

definition onTransfer ::
  "address option \<Rightarrow> address option \<Rightarrow> contract option \<Rightarrow> string \<Rightarrow> string \<Rightarrow> bignum
     \<Rightarrow> tracker \<Rightarrow> tracker" where
  "onTransfer account address tokenContract from to v s =
     (if Some from = account \<or> Some to = account \<or> Some from = address \<or> Some to = address
      then updateBalance account address tokenContract s
      else s)"

text \<open>
  The effect of \<^verbatim>\<open>useTokenBalance\<close>, run at mount and whenever \<^verbatim>\<open>account\<close>, \<^verbatim>\<open>address\<close>
  or \<^verbatim>\<open>tokenContract\<close> changed: React first runs the cleanup the previous run returned
  (\<^verbatim>\<open>removeListener\<close>).
\<close>

definition tokenBalanceEffect ::
  "address option \<Rightarrow> address option \<Rightarrow> contract option \<Rightarrow> tracker \<Rightarrow> tracker" where
  "tokenBalanceEffect account address tokenContract s =
     (let s1 = updateBalance account address tokenContract (s\<lparr>listener := None\<rparr>)
      in case tokenContract of
           None \<Rightarrow> s1
         | Some c \<Rightarrow>
             if \<not> truthy account \<and> \<not> truthy address then s1
             else s1\<lparr>listener := Some (account, address, c)\<rparr>)"

text \<open>What can happen to a mounted tracker, and the tracker after a list of events.\<close>

datatype trackerEvent =
    Render "address option" "address option" "contract option"
  | Transfer contract string string bignum
  | BalanceResult nat "error + bignum"
  | Unmount

fun trackerStep :: "tracker \<Rightarrow> trackerEvent \<Rightarrow> tracker" where
  "trackerStep s (Render account address tokenContract) =
     tokenBalanceEffect account address tokenContract s"
| "trackerStep s (Transfer emitter from to v) =
     (case listener s of
        None \<Rightarrow> s
      | Some (account, address, c) \<Rightarrow>
          if c = emitter then onTransfer account address (Some c) from to v s else s)"
| "trackerStep s (BalanceResult i r) = balanceSettled i r s"
| "trackerStep s Unmount = s\<lparr>listener := None\<rparr>"

definition trackerRun :: "tracker \<Rightarrow> trackerEvent list \<Rightarrow> tracker" where
  "trackerRun s evs = foldl trackerStep s evs"

text \<open>Settling promises only: each pair is the index of a fetch and what it settled to.\<close>

definition settleAll :: "(nat \<times> (error + bignum)) list \<Rightarrow> tracker \<Rightarrow> tracker" where
  "settleAll rs s = foldl (\<lambda>t (i, r). balanceSettled i r t) s rs"

text \<open>
  At most the fetch the ref points to can still write the balance: every other pending fetch
  has been cancelled.
\<close>

definition staleCancelled :: "tracker \<Rightarrow> bool" where
  "staleCancelled s =
     (\<forall>i \<in> {0..<length (fetches s)}.
        pending (fetches s ! i) \<and> \<not> cancelled (fetches s ! i) \<longrightarrow> cancelBalanceUpdate s = Some i)"

definition allCancelled :: "tracker \<Rightarrow> bool" where
  "allCancelled s = (\<forall>f \<in> set (fetches s). pending f \<longrightarrow> cancelled f)"

text \<open>The fetches once \<^verbatim>\<open>updateBalance\<close> has called the function in the ref, if any.\<close>

definition afterCancel :: "tracker \<Rightarrow> fetch list" where
  "afterCancel s = (case cancelBalanceUpdate s of Some i \<Rightarrow> cancelFetch i (fetches s) | None \<Rightarrow> fetches s)"

section \<open>Price oracle\<close>

text \<open>
  \<^verbatim>\<open>useBondingCurvePrice\<close> holds \<^verbatim>\<open>loading\<close> and \<^verbatim>\<open>price\<close>. Each run of its effect that
  passes the guard has its own \<^verbatim>\<open>cancelled\<close> and \<^verbatim>\<open>retryTimer\<close>, and its own
  \<^verbatim>\<open>getSalePrice\<close> closed over the inputs of that render: these are the entries of
  \<open>runs\<close>. \<open>retryTimer\<close> is the delay of a timeout that is set and has neither fired nor
  been cleared; \<open>phase\<close> says which awaited promise of \<^verbatim>\<open>getSalePrice\<close> is outstanding.
  \<open>cleanup\<close> is the run whose cleanup function React holds.
\<close>

datatype phase = Idle | AwaitSupply | AwaitPrice bignum

text \<open>
  The inputs a run closes over: \<^verbatim>\<open>amount\<close>, \<^verbatim>\<open>anjContract\<close>, \<^verbatim>\<open>antTreasuryBalance\<close>,
  \<^verbatim>\<open>bancorContract\<close>, \<^verbatim>\<open>connectorWeight\<close>, \<^verbatim>\<open>forwards\<close>.
\<close>

datatype inputs = Inputs int contract bignum contract "nat option" bool

record attempt = closure +
  retryTimer :: "nat option"
  phase :: phase
  closed :: inputs

record pricing =
  loading :: bool
  price :: bignum
  runs :: "attempt list"
  cleanup :: "nat option"
  requests :: "call list"

definition initPricing :: pricing where
  "initPricing =
     \<lparr>loading = False, price = bigNum (- 1), runs = [], cleanup = None, requests = []\<rparr>"

fun supplyRequest :: "inputs \<Rightarrow> call" where
  "supplyRequest (Inputs amount anjContract antTreasuryBalance bancorContract connectorWeight
       forwards) = TotalSupply anjContract"

fun priceRequest :: "inputs \<Rightarrow> bignum \<Rightarrow> call" where
  "priceRequest (Inputs amount anjContract antTreasuryBalance bancorContract connectorWeight
       forwards) anjTotalSupply =
     (if forwards
      then CalculatePurchaseReturn bancorContract anjTotalSupply antTreasuryBalance
             connectorWeight amount
      else CalculateSaleReturn bancorContract anjTotalSupply antTreasuryBalance
             connectorWeight amount)"

text \<open>
  \<^verbatim>\<open>getSalePrice\<close> of run \<open>i\<close>, up to its first \<^verbatim>\<open>await\<close>: \<^verbatim>\<open>setLoading(true)\<close>, then the
  \<^verbatim>\<open>totalSupply\<close> request.
\<close>

definition getSalePrice :: "nat \<Rightarrow> pricing \<Rightarrow> pricing" where
  "getSalePrice i s =
     (if i < length (runs s)
      then s\<lparr>loading := True,
             runs := (runs s)[i := (runs s ! i)\<lparr>phase := AwaitSupply\<rparr>],
             requests := requests s @ [supplyRequest (closed (runs s ! i))]\<rparr>
      else s)"

text \<open>
  The \<^verbatim>\<open>catch\<close> block of run \<open>i\<close>: a retry is scheduled unless the run was cancelled.
  Nothing else is done there.
\<close>

definition catchFailure :: "nat \<Rightarrow> pricing \<Rightarrow> pricing" where
  "catchFailure i s =
     (let a = runs s ! i
      in s\<lparr>runs := (runs s)[i := a\<lparr>phase := Idle,
               retryTimer := (if cancelled a then retryTimer a else Some RETRY_EVERY)\<rparr>]\<rparr>)"

text \<open>The \<^verbatim>\<open>totalSupply\<close> promise of run \<open>i\<close> settles.\<close>

definition supplySettled :: "nat \<Rightarrow> error + bignum \<Rightarrow> pricing \<Rightarrow> pricing" where
  "supplySettled i r s =
     (if i < length (runs s) \<and> phase (runs s ! i) = AwaitSupply
      then (case r of
              Inl e \<Rightarrow> catchFailure i s
            | Inr anjTotalSupply \<Rightarrow>
                s\<lparr>runs := (runs s)[i := (runs s ! i)\<lparr>phase := AwaitPrice anjTotalSupply\<rparr>],
                  requests := requests s @ [priceRequest (closed (runs s ! i)) anjTotalSupply]\<rparr>)
      else s)"

fun awaitingPrice :: "phase \<Rightarrow> bool" where
  "awaitingPrice (AwaitPrice anjTotalSupply) = True"
| "awaitingPrice _ = False"

text \<open>The purchase-return or sale-return promise of run \<open>i\<close> settles.\<close>

definition priceSettled :: "nat \<Rightarrow> error + bignum \<Rightarrow> pricing \<Rightarrow> pricing" where
  "priceSettled i r s =
     (if i < length (runs s) \<and> awaitingPrice (phase (runs s ! i))
      then (case r of
              Inl e \<Rightarrow> catchFailure i s
            | Inr salePrice \<Rightarrow>
                (let a = runs s ! i;
                     s1 = s\<lparr>runs := (runs s)[i := a\<lparr>phase := Idle\<rparr>]\<rparr>
                 in if cancelled a then s1 else s1\<lparr>loading := False, price := salePrice\<rparr>))
      else s)"

text \<open>The retry timeout of run \<open>i\<close> fires: \<^verbatim>\<open>getSalePrice\<close> runs again.\<close>

definition timerFired :: "nat \<Rightarrow> pricing \<Rightarrow> pricing" where
  "timerFired i s =
     (if i < length (runs s) \<and> retryTimer (runs s ! i) \<noteq> None
      then getSalePrice i (s\<lparr>runs := (runs s)[i := (runs s ! i)\<lparr>retryTimer := None\<rparr>]\<rparr>)
      else s)"

text \<open>The cleanup React holds: \<^verbatim>\<open>cancelled = true; clearTimeout(retryTimer)\<close>.\<close>

definition runCleanup :: "pricing \<Rightarrow> pricing" where
  "runCleanup s =
     (case cleanup s of
        None \<Rightarrow> s
      | Some i \<Rightarrow>
          if i < length (runs s)
          then s\<lparr>runs := (runs s)[i := (runs s ! i)\<lparr>cancelled := True, retryTimer := None\<rparr>],
                 cleanup := None\<rparr>
          else s\<lparr>cleanup := None\<rparr>)"

text \<open>
  The effect of \<^verbatim>\<open>useBondingCurvePrice\<close>, run at mount and whenever one of its inputs
  changed, after the previous run's cleanup. A run stopped by the guard returns no cleanup.
\<close>

definition bondingCurvePriceEffect ::
  "int \<Rightarrow> contract option \<Rightarrow> bignum \<Rightarrow> contract option \<Rightarrow> nat option \<Rightarrow> bool option
     \<Rightarrow> pricing \<Rightarrow> pricing" where
  "bondingCurvePriceEffect amount anjContract antTreasuryBalance bancorContract connectorWeight
       forwards s =
     (let s0 = runCleanup s
      in case anjContract of
           None \<Rightarrow> s0
         | Some anj \<Rightarrow>
             if antTreasuryBalance = - 1 then s0
             else
               (case bancorContract of
                  None \<Rightarrow> s0
                | Some bancor \<Rightarrow>
                    (let i = length (runs s0);
                         a = \<lparr>cancelled = False, retryTimer = None, phase = Idle,
                              closed = Inputs amount anj antTreasuryBalance bancor
                                         connectorWeight (orDefault True forwards)\<rparr>
                     in getSalePrice i (s0\<lparr>runs := runs s0 @ [a], cleanup := Some i\<rparr>))))"

datatype pricingEvent =
    PriceRender int "contract option" bignum "contract option" "nat option" "bool option"
  | SupplyResult nat "error + bignum"
  | PriceResult nat "error + bignum"
  | RetryTimeout nat
  | PriceUnmount

fun pricingStep :: "pricing \<Rightarrow> pricingEvent \<Rightarrow> pricing" where
  "pricingStep s (PriceRender amount anjContract antTreasuryBalance bancorContract
       connectorWeight forwards) =
     bondingCurvePriceEffect amount anjContract antTreasuryBalance bancorContract
       connectorWeight forwards s"
| "pricingStep s (SupplyResult i r) = supplySettled i r s"
| "pricingStep s (PriceResult i r) = priceSettled i r s"
| "pricingStep s (RetryTimeout i) = timerFired i s"
| "pricingStep s PriceUnmount = runCleanup s"

definition pricingRun :: "pricing \<Rightarrow> pricingEvent list \<Rightarrow> pricing" where
  "pricingRun s evs = foldl pricingStep s evs"







section \<open>Sample values\<close>

text \<open>Handles, a blockchain layer and a render of the price hook, for the concrete runs below.\<close>

definition demoToken :: contract where
  "demoToken = \<lparr>ref = 0, target = ''0xANT'', iface = [], runner = Signer 1\<rparr>"

definition demoANJ :: contract where
  "demoANJ = \<lparr>ref = 1, target = ''0xANJ'', iface = [], runner = Signer 1\<rparr>"

definition demoBancor :: contract where
  "demoBancor = \<lparr>ref = 2, target = ''0xBANCOR'', iface = [], runner = Signer 1\<rparr>"

definition demoFundraising :: contract where
  "demoFundraising = \<lparr>ref = 3, target = ''0xFUND'', iface = [], runner = Signer 1\<rparr>"

text \<open>
  A layer where every allowance is 40, every transaction is accepted, the transaction
  \<^verbatim>\<open>0xopen\<close> was mined in block 1234, \<^verbatim>\<open>0xlost\<close> is unknown, and the lookup of any other
  hash fails.
\<close>

definition demoChain :: chain where
  "demoChain =
     \<lparr>allowance = (\<lambda>c owner spender. Inr 40),
      approve = (\<lambda>c spender amount. Inr ''0xapprove''),
      openBuyOrder = (\<lambda>c token amount ov. Inr ''0xbuy''),
      openSellOrder = (\<lambda>c token amount ov. Inr ''0xsell''),
      claimBuyOrder = (\<lambda>c owner batchId token ov. Inr ''0xclaimbuy''),
      claimSellOrder = (\<lambda>c owner batchId token ov. Inr ''0xclaimsell''),
      getTransaction = (\<lambda>p h. if h = ''0xopen'' then Inr (Some \<lparr>blockNumber = Some 1234\<rparr>)
                               else if h = ''0xlost'' then Inr None
                               else Inl (Rejected ''network''))\<rparr>"

text \<open>A registry that knows the token \<^verbatim>\<open>TOKEN_ANT\<close> and no other contract.\<close>

definition demoKnownContracts :: "string \<Rightarrow> address option \<times> abi" where
  "demoKnownContracts name =
     (if name = ''TOKEN_ANT'' then (Some ''0xANT'', []) else (None, []))"

definition demoRender :: pricingEvent where
  "demoRender = PriceRender 10 (Some demoANJ) 500 (Some demoBancor) (Some 250000) None"

section \<open>The connector weight is a function of the chain identifier\<close>

text \<open>
  C7. The connector weight is decided by the chain identifier alone: 250000 for the
  identifier \<^verbatim>\<open>'1'\<close>, and 33333 for every other one, a missing one included. It reads no
  state, so it cannot change during a session.
\<close>

theorem getConnectorWeight_by_chain:
  "getConnectorWeight environment =
     (if environment ''CHAIN_ID'' = Some ''1'' then Some 250000 else Some 33333)"
  by (simp add: getConnectorWeight_def connectorWeights_def
      MAINNET_CONNECTOR_WEIGHT_def RINKEBY_CONNECTOR_WEIGHT_def)

theorem getConnectorWeight_by_chain_witness:
  "getConnectorWeight (\<lambda>k. if k = ''CHAIN_ID'' then Some ''1'' else None) = Some 250000
   \<and> getConnectorWeight (\<lambda>k. if k = ''CHAIN_ID'' then Some ''4'' else None) = Some 33333
   \<and> getConnectorWeight (\<lambda>k. None) = Some 33333"
  using getConnectorWeight_by_chain [of "\<lambda>k. if k = ''CHAIN_ID'' then Some ''1'' else None"]
    getConnectorWeight_by_chain [of "\<lambda>k. if k = ''CHAIN_ID'' then Some ''4'' else None"]
    getConnectorWeight_by_chain [of "\<lambda>k. None"]
  by simp

section \<open>The handle cache\<close>

lemma useContract_keeps:
  "contractsCache st a = Some c \<Longrightarrow>
   contractsCache (snd (useContract ethersProvider address abi signer st)) a = Some c"
  by (auto simp: useContract_def Let_def split: option.splits)

lemma useContracts_keeps:
  "contractsCache st a = Some c \<Longrightarrow> contractsCache (useContracts calls st) a = Some c"
proof (induction calls arbitrary: st)
  case Nil
  then show ?case by simp
next
  case (Cons x calls)
  obtain p ad ab sg where x: "x = (p, ad, ab, sg)"
    by (cases x) auto
  from Cons.prems have "contractsCache (snd (useContract p ad ab sg st)) a = Some c"
    by (rule useContract_keeps)
  then show ?case
    unfolding x by (simp add: Cons.IH)
qed

lemma useContract_caches:
  assumes "a \<noteq> []"
  shows "\<exists>c. fst (useContract (Some p) (Some a) abi signer st) = Some c
           \<and> contractsCache (snd (useContract (Some p) (Some a) abi signer st)) a = Some c"
  using assms by (auto simp: useContract_def Let_def split: option.splits)

lemma useContract_hit:
  assumes "a \<noteq> []" and "contractsCache st a = Some c"
  shows "useContract (Some p) (Some a) abi signer st = (Some c, st)"
  using assms by (simp add: useContract_def)

lemma useContract_falsy:
  "useContract ethersProvider (Some []) abi signer st = (None, st)"
  by (simp add: useContract_def split: option.splits)

text \<open>
  C3. With a connection at both calls, a second call of \<^verbatim>\<open>useContract\<close> for the same
  address returns what the first call returned and leaves the cache as it found it,
  whatever interface descriptor, mode and provider the second call passes, and whatever
  calls were made in between. For an address that is not the empty string, what both calls
  return is a handle, the very object (the same \<open>ref\<close>, interface and signer-or-provider)
  the first call returned, and it is the cache's entry for the address.
\<close>

theorem useContract_idempotent:
  assumes "useContract (Some p1) (Some a) abi1 signer1 st = (r1, st1)"
    and "st2 = useContracts between st1"
    and "useContract (Some p2) (Some a) abi2 signer2 st2 = (r2, st3)"
  shows "r2 = r1 \<and> st3 = st2 \<and> (a \<noteq> [] \<longrightarrow> r1 \<noteq> None \<and> contractsCache st3 a = r1)"
proof (cases "a = []")
  case True
  with assms(1,3) show ?thesis
    by (simp add: useContract_falsy)
next
  case False
  from useContract_caches [OF False, of p1 abi1 signer1 st] assms(1)
  obtain c where c: "r1 = Some c" "contractsCache st1 a = Some c"
    by auto
  from c(2) assms(2) have kept: "contractsCache st2 a = Some c"
    by (simp add: useContracts_keeps)
  from useContract_hit [OF False kept, of p2 abi2 signer2] assms(3)
  have "r2 = Some c" "st3 = st2"
    by auto
  with c kept show ?thesis
    by simp
qed

theorem useContract_idempotent_witness:
  "fst (useContract (Some 7) (Some ''0xA'') [''balanceOf''] (Some False)
         (useContracts [(Some 5, Some ''0xB'', [], Some True)]
           (snd (useContract (Some 5) (Some ''0xA'') [''transfer''] None emptyCache))))
   = Some \<lparr>ref = 0, target = ''0xA'', iface = [''transfer''], runner = Signer 5\<rparr>
   \<and> contractsCache
        (snd (useContract (Some 7) (Some ''0xA'') [''balanceOf''] (Some False)
           (useContracts [(Some 5, Some ''0xB'', [], Some True)]
             (snd (useContract (Some 5) (Some ''0xA'') [''transfer''] None emptyCache)))))
        ''0xA''
   = Some \<lparr>ref = 0, target = ''0xA'', iface = [''transfer''], runner = Signer 5\<rparr>"
proof -
  obtain r1 st1 where
    one: "useContract (Some 5) (Some ''0xA'') [''transfer''] None emptyCache = (r1, st1)"
    by (cases "useContract (Some 5) (Some ''0xA'') [''transfer''] None emptyCache") auto
  define st2 where "st2 = useContracts [(Some 5, Some ''0xB'', [], Some True)] st1"
  obtain r2 st3 where
    two: "useContract (Some 7) (Some ''0xA'') [''balanceOf''] (Some False) st2 = (r2, st3)"
    by (cases "useContract (Some 7) (Some ''0xA'') [''balanceOf''] (Some False) st2") auto
  from useContract_idempotent [OF one st2_def two]
  have same: "r2 = r1" "contractsCache st3 ''0xA'' = r1"
    by auto
  from one have r1: "r1 = Some \<lparr>ref = 0, target = ''0xA'', iface = [''transfer''], runner = Signer 5\<rparr>"
    by (auto simp: useContract_def emptyCache_def Let_def orDefault_def)
  from one have "st1 = snd (useContract (Some 5) (Some ''0xA'') [''transfer''] None emptyCache)"
    by simp
  with two same r1 show ?thesis
    by (simp add: st2_def)
qed

section \<open>Allowance and order flows: what is submitted\<close>

text \<open>
  With the registry that knows \<^verbatim>\<open>TOKEN_ANT\<close> only, no handle of the spender
  \<^verbatim>\<open>MARKET_MAKER\<close> can be had, yet the allowance callback does not return \<^verbatim>\<open>false\<close>: it
  reads the allowance of the spender \<^verbatim>\<open>undefined\<close> and submits an approval for it.
\<close>

theorem useAllowance_spender_unknown_counterexample:
  "fst (useKnownContract demoKnownContracts (Some 1) ''MARKET_MAKER'' None emptyCache) = None
   \<and> fst (useAllowance demoChain demoKnownContracts (Some ''0xme'') (Some 1) emptyCache) 50
       = (Inr (RetTx ''0xapprove''),
          [Allowance demoToken (Some ''0xme'') None, Approve demoToken None 50])"
  by (simp add: useAllowance_def useKnownContract_def useContract_def demoKnownContracts_def
      emptyCache_def orDefault_def Let_def useAllowance_callback_def demoChain_def bigNum_def
      returned_def demoToken_def)

text \<open>
  C4, as the code has it. The handle the allowance callback tests is the one of the token
  \<^verbatim>\<open>TOKEN_ANT\<close>, on which \<^verbatim>\<open>allowance\<close> and \<^verbatim>\<open>approve\<close> are called; of the spender
  \<^verbatim>\<open>MARKET_MAKER\<close> only the address is read, and nothing tests it. Without the token
  handle the callback returns \<^verbatim>\<open>false\<close>, calling nothing. With it, when the allowance
  query resolves to \<open>a\<close>: if \<open>a\<close> is strictly less than the amount, exactly one approval
  is submitted, for the spender's address and exactly that amount, and its result is the
  callback's; otherwise nothing is submitted and the callback returns \<^verbatim>\<open>undefined\<close>.
\<close>

theorem useAllowance_flow:
  "fst (useAllowance ch getKnownContract account ethersProvider st) =
     useAllowance_callback ch account
       (fst (useKnownContract getKnownContract ethersProvider ''TOKEN_ANT'' None st))
       (fst (getKnownContract ''MARKET_MAKER''))
   \<and> (antContract = None \<longrightarrow>
        useAllowance_callback ch account antContract marketMakerAddress amount
          = (Inr RetFalse, []))
   \<and> (\<forall>c a. antContract = Some c \<and> allowance ch c account marketMakerAddress = Inr a \<longrightarrow>
        (a < bigNum amount \<longrightarrow>
           useAllowance_callback ch account antContract marketMakerAddress amount =
             (returned (approve ch c marketMakerAddress amount),
              [Allowance c account marketMakerAddress, Approve c marketMakerAddress amount]))
        \<and> (bigNum amount \<le> a \<longrightarrow>
             useAllowance_callback ch account antContract marketMakerAddress amount =
               (Inr RetUndefined, [Allowance c account marketMakerAddress])))"
proof -
  have "fst (useAllowance ch getKnownContract account ethersProvider st) =
     useAllowance_callback ch account
       (fst (useKnownContract getKnownContract ethersProvider ''TOKEN_ANT'' None st))
       (fst (getKnownContract ''MARKET_MAKER''))"
    by (simp add: useAllowance_def split: prod.splits)
  then show ?thesis
    by (auto simp: useAllowance_callback_def)
qed

theorem useAllowance_flow_witness:
  "useAllowance_callback demoChain (Some ''0xme'') None (Some ''0xMM'') 50 = (Inr RetFalse, [])
   \<and> useAllowance_callback demoChain (Some ''0xme'') (Some demoToken) (Some ''0xMM'') 50 =
       (Inr (RetTx ''0xapprove''),
        [Allowance demoToken (Some ''0xme'') (Some ''0xMM''), Approve demoToken (Some ''0xMM'') 50])
   \<and> useAllowance_callback demoChain (Some ''0xme'') (Some demoToken) (Some ''0xMM'') 40 =
       (Inr RetUndefined, [Allowance demoToken (Some ''0xme'') (Some ''0xMM'')])"
proof -
  have a: "allowance demoChain demoToken (Some ''0xme'') (Some ''0xMM'') = Inr 40"
    by (simp add: demoChain_def)
  have r: "returned (approve demoChain demoToken (Some ''0xMM'') 50) = Inr (RetTx ''0xapprove'')"
    by (simp add: demoChain_def returned_def)
  from useAllowance_flow [of demoChain _ "Some ''0xme''" _ _ None "Some ''0xMM''" 50]
  have one: "useAllowance_callback demoChain (Some ''0xme'') None (Some ''0xMM'') 50 = (Inr RetFalse, [])"
    by simp
  from useAllowance_flow [of demoChain _ "Some ''0xme''" _ _ "Some demoToken" "Some ''0xMM''" 50] a r
  have two: "useAllowance_callback demoChain (Some ''0xme'') (Some demoToken) (Some ''0xMM'') 50 =
       (Inr (RetTx ''0xapprove''),
        [Allowance demoToken (Some ''0xme'') (Some ''0xMM''), Approve demoToken (Some ''0xMM'') 50])"
    by (simp add: bigNum_def)
  from useAllowance_flow [of demoChain _ "Some ''0xme''" _ _ "Some demoToken" "Some ''0xMM''" 40] a
  have three: "useAllowance_callback demoChain (Some ''0xme'') (Some demoToken) (Some ''0xMM'') 40 =
       (Inr RetUndefined, [Allowance demoToken (Some ''0xme'') (Some ''0xMM'')])"
    by (simp add: bigNum_def)
  from one two three show ?thesis by simp
qed

text \<open>
  C6. The open-order callback returns \<^verbatim>\<open>false\<close>, calling nothing, when it has no
  \<^verbatim>\<open>FUNDRAISING\<close> handle. With a handle it submits one transaction against the address of
  \<^verbatim>\<open>TOKEN_ANT\<close>: a buy order with gas limit 650000 and value 0 when \<^verbatim>\<open>toAnj\<close> holds (the
  default), a sell order with gas limit 850000 and no value otherwise; the transaction's
  result is the callback's.
\<close>

theorem useOpenOrder_flow:
  "fst (useOpenOrder ch getKnownContract ethersProvider st) =
     useOpenOrder_callback ch
       (fst (useKnownContract getKnownContract ethersProvider ''FUNDRAISING'' None st))
       (fst (getKnownContract ''TOKEN_ANT''))
   \<and> (fundraisingContract = None \<longrightarrow>
        useOpenOrder_callback ch fundraisingContract antAddress amount toAnj = (Inr RetFalse, []))
   \<and> (\<forall>c. fundraisingContract = Some c \<longrightarrow>
        (orDefault True toAnj \<longrightarrow>
           useOpenOrder_callback ch fundraisingContract antAddress amount toAnj =
             (returned (openBuyOrder ch c antAddress amount \<lparr>gasLimit = 650000, val = Some 0\<rparr>),
              [OpenBuyOrder c antAddress amount \<lparr>gasLimit = 650000, val = Some 0\<rparr>]))
        \<and> (\<not> orDefault True toAnj \<longrightarrow>
             useOpenOrder_callback ch fundraisingContract antAddress amount toAnj =
               (returned (openSellOrder ch c antAddress amount \<lparr>gasLimit = 850000, val = None\<rparr>),
                [OpenSellOrder c antAddress amount \<lparr>gasLimit = 850000, val = None\<rparr>])))"
proof -
  have "fst (useOpenOrder ch getKnownContract ethersProvider st) =
     useOpenOrder_callback ch
       (fst (useKnownContract getKnownContract ethersProvider ''FUNDRAISING'' None st))
       (fst (getKnownContract ''TOKEN_ANT''))"
    by (simp add: useOpenOrder_def split: prod.splits)
  then show ?thesis
    by (auto simp: useOpenOrder_callback_def)
qed

theorem useOpenOrder_flow_witness:
  "useOpenOrder_callback demoChain None (Some ''0xANT'') 7 None = (Inr RetFalse, [])
   \<and> useOpenOrder_callback demoChain (Some demoFundraising) (Some ''0xANT'') 7 None =
       (Inr (RetTx ''0xbuy''),
        [OpenBuyOrder demoFundraising (Some ''0xANT'') 7 \<lparr>gasLimit = 650000, val = Some 0\<rparr>])
   \<and> useOpenOrder_callback demoChain (Some demoFundraising) (Some ''0xANT'') 7 (Some False) =
       (Inr (RetTx ''0xsell''),
        [OpenSellOrder demoFundraising (Some ''0xANT'') 7 \<lparr>gasLimit = 850000, val = None\<rparr>])"
proof -
  from useOpenOrder_flow [of demoChain _ _ _ None "Some ''0xANT''" 7 None]
  have one: "useOpenOrder_callback demoChain None (Some ''0xANT'') 7 None = (Inr RetFalse, [])"
    by simp
  from useOpenOrder_flow [of demoChain _ _ _ "Some demoFundraising" "Some ''0xANT''" 7 None]
  have two: "useOpenOrder_callback demoChain (Some demoFundraising) (Some ''0xANT'') 7 None =
       (Inr (RetTx ''0xbuy''),
        [OpenBuyOrder demoFundraising (Some ''0xANT'') 7 \<lparr>gasLimit = 650000, val = Some 0\<rparr>])"
    by (simp add: orDefault_def demoChain_def returned_def)
  from useOpenOrder_flow [of demoChain _ _ _ "Some demoFundraising" "Some ''0xANT''" 7 "Some False"]
  have three: "useOpenOrder_callback demoChain (Some demoFundraising) (Some ''0xANT'') 7 (Some False) =
       (Inr (RetTx ''0xsell''),
        [OpenSellOrder demoFundraising (Some ''0xANT'') 7 \<lparr>gasLimit = 850000, val = None\<rparr>])"
    by (simp add: orDefault_def demoChain_def returned_def)
  from one two three show ?thesis by simp
qed

text \<open>
  C5. With a provider and a \<^verbatim>\<open>FUNDRAISING\<close> handle, when the lookup of the open-order hash
  resolves to a transaction of block number \<open>B\<close>, the claim callback submits exactly one
  claim after the lookup: \<^verbatim>\<open>claimBuyOrder\<close> when \<^verbatim>\<open>toAnj\<close> holds (the default),
  \<^verbatim>\<open>claimSellOrder\<close> otherwise, with the account, the batch identifier \<open>B\<close> and the
  address of \<^verbatim>\<open>TOKEN_ANT\<close>, and with gas limit 500000 in both directions.
\<close>

theorem useClaimOrder_batch:
  assumes "getTransaction ch p openOrderTransactionHash = Inr (Some tx)"
    and "blockNumber tx = Some B"
  shows "useClaimOrder_callback ch account (Some p) (Some c) antAddress
           openOrderTransactionHash toAnj =
         (if orDefault True toAnj
          then (returned (claimBuyOrder ch c account (Some B) antAddress
                            \<lparr>gasLimit = 500000, val = None\<rparr>),
                [GetTransaction p openOrderTransactionHash,
                 ClaimBuyOrder c account (Some B) antAddress \<lparr>gasLimit = 500000, val = None\<rparr>])
          else (returned (claimSellOrder ch c account (Some B) antAddress
                            \<lparr>gasLimit = 500000, val = None\<rparr>),
                [GetTransaction p openOrderTransactionHash,
                 ClaimSellOrder c account (Some B) antAddress \<lparr>gasLimit = 500000, val = None\<rparr>]))
         \<and> fst (useClaimOrder ch getKnownContract account ethersProvider st) =
             useClaimOrder_callback ch account ethersProvider
               (fst (useKnownContract getKnownContract ethersProvider ''FUNDRAISING'' None st))
               (fst (getKnownContract ''TOKEN_ANT''))"
proof -
  have "fst (useClaimOrder ch getKnownContract account ethersProvider st) =
             useClaimOrder_callback ch account ethersProvider
               (fst (useKnownContract getKnownContract ethersProvider ''FUNDRAISING'' None st))
               (fst (getKnownContract ''TOKEN_ANT''))"
    by (simp add: useClaimOrder_def split: prod.splits)
  with assms show ?thesis
    by (simp add: useClaimOrder_callback_def Let_def)
qed

theorem useClaimOrder_batch_witness:
  "useClaimOrder_callback demoChain (Some ''0xme'') (Some 1) (Some demoFundraising) (Some ''0xANT'')
     ''0xopen'' None =
     (Inr (RetTx ''0xclaimbuy''),
      [GetTransaction 1 ''0xopen'',
       ClaimBuyOrder demoFundraising (Some ''0xme'') (Some 1234) (Some ''0xANT'')
         \<lparr>gasLimit = 500000, val = None\<rparr>])
   \<and> useClaimOrder_callback demoChain (Some ''0xme'') (Some 1) (Some demoFundraising) (Some ''0xANT'')
     ''0xopen'' (Some False) =
     (Inr (RetTx ''0xclaimsell''),
      [GetTransaction 1 ''0xopen'',
       ClaimSellOrder demoFundraising (Some ''0xme'') (Some 1234) (Some ''0xANT'')
         \<lparr>gasLimit = 500000, val = None\<rparr>])"
proof -
  have t: "getTransaction demoChain 1 ''0xopen'' = Inr (Some \<lparr>blockNumber = Some 1234\<rparr>)"
    by (simp add: demoChain_def)
  have b: "blockNumber \<lparr>blockNumber = Some 1234\<rparr> = Some 1234"
    by simp
  from useClaimOrder_batch [OF t b, of "Some ''0xme''" demoFundraising "Some ''0xANT''" None]
  have one: "useClaimOrder_callback demoChain (Some ''0xme'') (Some 1) (Some demoFundraising)
     (Some ''0xANT'') ''0xopen'' None =
     (Inr (RetTx ''0xclaimbuy''),
      [GetTransaction 1 ''0xopen'',
       ClaimBuyOrder demoFundraising (Some ''0xme'') (Some 1234) (Some ''0xANT'')
         \<lparr>gasLimit = 500000, val = None\<rparr>])"
    by (simp add: orDefault_def demoChain_def returned_def)
  from useClaimOrder_batch [OF t b, of "Some ''0xme''" demoFundraising "Some ''0xANT''" "Some False"]
  have two: "useClaimOrder_callback demoChain (Some ''0xme'') (Some 1) (Some demoFundraising)
     (Some ''0xANT'') ''0xopen'' (Some False) =
     (Inr (RetTx ''0xclaimsell''),
      [GetTransaction 1 ''0xopen'',
       ClaimSellOrder demoFundraising (Some ''0xme'') (Some 1234) (Some ''0xANT'')
         \<lparr>gasLimit = 500000, val = None\<rparr>])"
    by (simp add: orDefault_def demoChain_def returned_def)
  from one two show ?thesis by simp
qed

text \<open>
  The claim callback with a provider but no \<^verbatim>\<open>FUNDRAISING\<close> handle, for a hash whose lookup
  is rejected: the callback fails with the lookup's rejection, which is no \<^verbatim>\<open>TypeError\<close>;
  the missing handle was never read.
\<close>

theorem useClaimOrder_lookup_failure_counterexample:
  "useClaimOrder_callback demoChain (Some ''0xme'') (Some 1) None (Some ''0xANT'') ''0xbad'' None
     = (Inl (Rejected ''network''), [GetTransaction 1 ''0xbad''])
   \<and> (\<forall>m. fst (useClaimOrder_callback demoChain (Some ''0xme'') (Some 1) None (Some ''0xANT'')
                  ''0xbad'' None) \<noteq> Inl (TypeError m))"
  by (simp add: useClaimOrder_callback_def demoChain_def)

text \<open>
  C10, as the code has it. The claim callback tests neither the provider nor the
  \<^verbatim>\<open>FUNDRAISING\<close> handle. Called while one of them is \<^verbatim>\<open>null\<close>, it never returns a value
  (so never \<^verbatim>\<open>false\<close>) and never submits a claim: it fails. Without a provider it fails at
  once, reading \<^verbatim>\<open>getTransaction\<close> of \<^verbatim>\<open>null\<close>. With a provider and no handle the lookup is
  made first: the callback fails with the lookup's own rejection, or reading \<^verbatim>\<open>blockNumber\<close>
  of \<^verbatim>\<open>null\<close> when the transaction is unknown, and only when the lookup finds the
  transaction does it fail reading the claim method of the missing handle.
\<close>

theorem useClaimOrder_unguarded:
  assumes "ethersProvider = None \<or> fundraisingContract = None"
  shows "(\<exists>e. fst (useClaimOrder_callback ch account ethersProvider fundraisingContract
                     antAddress openOrderTransactionHash toAnj) = Inl e)
         \<and> \<not> list_ex submits (snd (useClaimOrder_callback ch account ethersProvider
                     fundraisingContract antAddress openOrderTransactionHash toAnj))
         \<and> (ethersProvider = None \<longrightarrow>
               useClaimOrder_callback ch account ethersProvider fundraisingContract
                 antAddress openOrderTransactionHash toAnj
               = (Inl (TypeError ''getTransaction''), []))
         \<and> (\<forall>p. ethersProvider = Some p \<longrightarrow>
               useClaimOrder_callback ch account ethersProvider fundraisingContract
                 antAddress openOrderTransactionHash toAnj
               = ((case getTransaction ch p openOrderTransactionHash of
                     Inl e \<Rightarrow> Inl e
                   | Inr None \<Rightarrow> Inl (TypeError ''blockNumber'')
                   | Inr (Some tx) \<Rightarrow>
                       Inl (TypeError (if orDefault True toAnj then ''claimBuyOrder''
                                       else ''claimSellOrder''))),
                  [GetTransaction p openOrderTransactionHash]))"
  using assms
  by (auto simp: useClaimOrder_callback_def Let_def split: option.splits sum.splits)

theorem useClaimOrder_unguarded_witness:
  "useClaimOrder_callback demoChain (Some ''0xme'') None None (Some ''0xANT'') ''0xopen'' None
     = (Inl (TypeError ''getTransaction''), [])
   \<and> useClaimOrder_callback demoChain (Some ''0xme'') (Some 1) None (Some ''0xANT'') ''0xopen'' None
     = (Inl (TypeError ''claimBuyOrder''), [GetTransaction 1 ''0xopen''])
   \<and> useClaimOrder_callback demoChain (Some ''0xme'') (Some 1) None (Some ''0xANT'') ''0xlost'' None
     = (Inl (TypeError ''blockNumber''), [GetTransaction 1 ''0xlost''])"
proof -
  from useClaimOrder_unguarded [of None None demoChain "Some ''0xme''" "Some ''0xANT''" "''0xopen''" None]
  have one: "useClaimOrder_callback demoChain (Some ''0xme'') None None (Some ''0xANT'') ''0xopen'' None
     = (Inl (TypeError ''getTransaction''), [])"
    by simp
  from useClaimOrder_unguarded [of "Some 1" None demoChain "Some ''0xme''" "Some ''0xANT''" "''0xopen''" None]
  have two: "useClaimOrder_callback demoChain (Some ''0xme'') (Some 1) None (Some ''0xANT'') ''0xopen'' None
     = (Inl (TypeError ''claimBuyOrder''), [GetTransaction 1 ''0xopen''])"
    by (simp add: demoChain_def orDefault_def)
  from useClaimOrder_unguarded [of "Some 1" None demoChain "Some ''0xme''" "Some ''0xANT''" "''0xlost''" None]
  have three: "useClaimOrder_callback demoChain (Some ''0xme'') (Some 1) None (Some ''0xANT'') ''0xlost'' None
     = (Inl (TypeError ''blockNumber''), [GetTransaction 1 ''0xlost''])"
    by (simp add: demoChain_def orDefault_def)
  from one two three show ?thesis by simp
qed

section \<open>Balance tracker: cancellation\<close>

lemma length_cancelFetch [simp]: "length (cancelFetch i fs) = length fs"
  by (simp add: cancelFetch_def)

lemma nth_cancelFetch:
  "j < length fs \<Longrightarrow>
   cancelFetch i fs ! j = (if j = i then (fs ! j)\<lparr>cancelled := True\<rparr> else fs ! j)"
  by (simp add: cancelFetch_def)

lemma length_afterCancel [simp]: "length (afterCancel s) = length (fetches s)"
  by (simp add: afterCancel_def split: option.splits)

lemma afterCancel_all:
  assumes "staleCancelled s" and "f \<in> set (afterCancel s)" and "pending f"
  shows "cancelled f"
proof -
  from assms(2) obtain j where j: "j < length (fetches s)" "f = afterCancel s ! j"
    by (auto simp: in_set_conv_nth)
  show ?thesis
  proof (cases "cancelBalanceUpdate s = Some j")
    case True
    with j show ?thesis by (simp add: afterCancel_def nth_cancelFetch)
  next
    case False
    with j have eq: "f = fetches s ! j"
      by (auto simp: afterCancel_def nth_cancelFetch split: option.splits)
    with assms(1,3) j(1) False show ?thesis
      by (auto simp: staleCancelled_def)
  qed
qed

lemma updateBalance_fetches:
  "fetches (updateBalance account address tokenContract s) =
     (if tokenContract \<noteq> None \<and> (truthy account \<or> truthy address)
      then afterCancel s @
             [\<lparr>cancelled = False, pending = True,
               query = BalanceOf (the tokenContract) (if truthy address then address else account)\<rparr>]
      else afterCancel s)"
  by (auto simp: updateBalance_def afterCancel_def Let_def split: option.splits)

lemma updateBalance_ref:
  "cancelBalanceUpdate (updateBalance account address tokenContract s) =
     (if tokenContract \<noteq> None \<and> (truthy account \<or> truthy address)
      then Some (length (fetches s)) else None)"
  by (auto simp: updateBalance_def Let_def split: option.splits)

lemma updateBalance_balance:
  "balance (updateBalance account address tokenContract s) =
     (if tokenContract \<noteq> None \<and> (truthy account \<or> truthy address)
      then balance s else bigNum (- 1))"
  by (auto simp: updateBalance_def Let_def split: option.splits)

lemma updateBalance_listener:
  "listener (updateBalance account address tokenContract s) = listener s"
  by (auto simp: updateBalance_def Let_def split: option.splits)

lemma updateBalance_stale:
  assumes "staleCancelled s"
  shows "staleCancelled (updateBalance account address tokenContract s)"
  unfolding staleCancelled_def updateBalance_fetches updateBalance_ref
  using afterCancel_all [OF assms]
  by (auto simp: nth_append less_Suc_eq)

lemma updateBalance_allCancelled:
  assumes "staleCancelled s" and "tokenContract = None \<or> (\<not> truthy account \<and> \<not> truthy address)"
  shows "allCancelled (updateBalance account address tokenContract s)"
  unfolding allCancelled_def updateBalance_fetches
  using afterCancel_all [OF assms(1)] assms(2) by auto

lemma balanceSettled_stale:
  assumes "staleCancelled s"
  shows "staleCancelled (balanceSettled i r s)"
  using assms
  by (auto simp: staleCancelled_def balanceSettled_def Let_def nth_list_update split: sum.splits)

lemma balanceSettled_allCancelled:
  assumes "allCancelled s"
  shows "allCancelled (balanceSettled i r s) \<and> balance (balanceSettled i r s) = balance s"
  using assms
  by (auto simp: allCancelled_def balanceSettled_def Let_def split: sum.splits
      dest!: set_update_subset_insert [THEN subsetD])

lemma settleAll_allCancelled:
  "allCancelled s \<Longrightarrow> balance (settleAll rs s) = balance s"
proof (induction rs arbitrary: s)
  case Nil
  then show ?case by (simp add: settleAll_def)
next
  case (Cons x rs)
  obtain i r where x: "x = (i, r)" by (cases x) auto
  from Cons.prems have "allCancelled (balanceSettled i r s)" "balance (balanceSettled i r s) = balance s"
    using balanceSettled_allCancelled by auto
  with Cons.IH [of "balanceSettled i r s"] show ?case
    by (simp add: settleAll_def x)
qed

lemma trackerStep_stale:
  assumes "staleCancelled s"
  shows "staleCancelled (trackerStep s ev)"
proof (cases ev)
  case (Render account address tokenContract)
  have "staleCancelled (s\<lparr>listener := None\<rparr>)"
    using assms by (simp add: staleCancelled_def)
  then have "staleCancelled (updateBalance account address tokenContract (s\<lparr>listener := None\<rparr>))"
    by (rule updateBalance_stale)
  then show ?thesis
    unfolding Render by (auto simp: tokenBalanceEffect_def Let_def staleCancelled_def split: option.splits)
next
  case (Transfer emitter sender receiver v)
  then show ?thesis
    using assms updateBalance_stale by (auto simp: onTransfer_def split: option.splits)
next
  case (BalanceResult i r)
  then show ?thesis using assms by (simp add: balanceSettled_stale)
next
  case Unmount
  then show ?thesis using assms by (simp add: staleCancelled_def)
qed

lemma trackerRun_stale:
  "staleCancelled s \<Longrightarrow> staleCancelled (trackerRun s evs)"
  unfolding trackerRun_def
  by (induction evs arbitrary: s) (simp_all add: trackerStep_stale)

lemma initTracker_stale: "staleCancelled initTracker"
  by (simp add: staleCancelled_def initTracker_def)

text \<open>
  C8. A refresh whose closure has neither a truthy account nor a truthy address, or has no
  token handle, sets the balance to \<open>-1\<close> and leaves no cancel function in the ref, in any
  state. In a state the tracker can reach from its initial one, no promise that settles
  afterwards writes the balance: it stays \<open>-1\<close>.
\<close>

theorem updateBalance_unresolvable_sentinel:
  assumes "(\<not> truthy account \<and> \<not> truthy address) \<or> tokenContract = None"
  shows "balance (updateBalance account address tokenContract s) = bigNum (- 1)
         \<and> cancelBalanceUpdate (updateBalance account address tokenContract s) = None
         \<and> balance (settleAll rs (updateBalance account address tokenContract
                                    (trackerRun initTracker evs))) = bigNum (- 1)"
proof -
  have unres: "tokenContract = None \<or> (\<not> truthy account \<and> \<not> truthy address)"
    using assms by blast
  have "staleCancelled (trackerRun initTracker evs)"
    by (simp add: trackerRun_stale initTracker_stale)
  then have "allCancelled (updateBalance account address tokenContract (trackerRun initTracker evs))"
    using unres by (rule updateBalance_allCancelled)
  then have "balance (settleAll rs (updateBalance account address tokenContract
                                     (trackerRun initTracker evs)))
             = balance (updateBalance account address tokenContract (trackerRun initTracker evs))"
    by (rule settleAll_allCancelled)
  with unres show ?thesis
    by (auto simp: updateBalance_balance updateBalance_ref)
qed

theorem updateBalance_unresolvable_sentinel_witness:
  "balance (settleAll [(0, Inr 77)]
      (updateBalance None (Some []) (Some demoToken)
         (trackerRun initTracker [Render (Some ''0xme'') (Some []) (Some demoToken)])))
   = - 1"
proof -
  have "(\<not> truthy None \<and> \<not> truthy (Some [])) \<or> Some demoToken = None"
    by (simp add: truthy_def)
  from updateBalance_unresolvable_sentinel [OF this, of initTracker "[(0, Inr 77)]"
      "[Render (Some ''0xme'') (Some []) (Some demoToken)]"]
  show ?thesis by (simp add: bigNum_def)
qed

text \<open>
  C2. Fetch \<open>A\<close> is started by a refresh, then fetch \<open>B\<close> by a second refresh, in any
  state; both are then pending. When \<open>B\<close> resolves and \<open>A\<close> resolves after it, the
  balance is \<open>B\<close>'s result: the result of \<open>A\<close> is dropped.
\<close>

theorem superseded_fetch_discarded:
  assumes "truthy accountA \<or> truthy addressA" and "truthy accountB \<or> truthy addressB"
    and "sA = updateBalance accountA addressA (Some cA) s"
    and "sB = updateBalance accountB addressB (Some cB) sA"
    and "cancelBalanceUpdate sA = Some A" and "cancelBalanceUpdate sB = Some B"
  shows "A \<noteq> B \<and> pending (fetches sB ! A) \<and> pending (fetches sB ! B)
         \<and> balance (balanceSettled A (Inr vA) (balanceSettled B (Inr vB) sB)) = vB"
proof -
  have A: "A = length (fetches s)"
    using assms(1,3,5) by (simp add: updateBalance_ref)
  have lenA: "length (fetches sA) = Suc (length (fetches s))"
    using assms(1,3) by (simp add: updateBalance_fetches)
  have B: "B = Suc (length (fetches s))"
    using assms(2,4,6) lenA by (simp add: updateBalance_ref)
  have fA: "fetches sA ! A = \<lparr>cancelled = False, pending = True,
               query = BalanceOf cA (if truthy addressA then addressA else accountA)\<rparr>"
    using assms(1,3) A by (simp add: updateBalance_fetches nth_append)
  have fsB: "fetches sB = afterCancel sA @ [\<lparr>cancelled = False, pending = True,
               query = BalanceOf cB (if truthy addressB then addressB else accountB)\<rparr>]"
    using assms(2,4) by (simp add: updateBalance_fetches)
  have acA: "afterCancel sA ! A = (fetches sA ! A)\<lparr>cancelled := True\<rparr>"
    using assms(5) lenA A by (simp add: afterCancel_def nth_cancelFetch)
  have sBA: "fetches sB ! A = \<lparr>cancelled = True, pending = True,
               query = BalanceOf cA (if truthy addressA then addressA else accountA)\<rparr>"
    using fsB acA fA lenA A by (simp add: nth_append)
  have sBB: "fetches sB ! B = \<lparr>cancelled = False, pending = True,
               query = BalanceOf cB (if truthy addressB then addressB else accountB)\<rparr>"
    using fsB lenA B by (simp add: nth_append)
  have lenB: "length (fetches sB) = Suc (Suc (length (fetches s)))"
    using fsB lenA by simp
  define s1 where "s1 = balanceSettled B (Inr vB) sB"
  have b1: "balance s1 = vB"
    unfolding s1_def using sBB lenB B by (simp add: balanceSettled_def Let_def)
  have f1: "fetches s1 ! A = fetches sB ! A" "length (fetches s1) = length (fetches sB)"
    unfolding s1_def using sBB lenB A B by (simp_all add: balanceSettled_def Let_def)
  have "balance (balanceSettled A (Inr vA) s1) = vB"
    using b1 f1 sBA lenB A by (simp add: balanceSettled_def Let_def)
  then show ?thesis
    using A B sBA sBB by (simp add: s1_def)
qed

theorem superseded_fetch_discarded_witness:
  "balance (trackerRun initTracker
      [Render (Some ''0xme'') (Some []) (Some demoToken),
       Transfer demoToken ''0xme'' ''0xyou'' 5,
       BalanceResult 1 (Inr 95),
       BalanceResult 0 (Inr 100)]) = 95"
proof -
  define sA where "sA = updateBalance (Some ''0xme'') (Some []) (Some demoToken) (initTracker\<lparr>listener := None\<rparr>)"
  define sB where "sB = updateBalance (Some ''0xme'') (Some []) (Some demoToken)
                          (sA\<lparr>listener := Some (Some ''0xme'', Some [], demoToken)\<rparr>)"
  have t: "truthy (Some ''0xme'') \<or> truthy (Some [])"
    by (simp add: truthy_def)
  have refA: "cancelBalanceUpdate (sA\<lparr>listener := Some (Some ''0xme'', Some [], demoToken)\<rparr>) = Some 0"
    by (simp add: sA_def updateBalance_ref truthy_def initTracker_def)
  have refB: "cancelBalanceUpdate sB = Some 1"
    by (simp add: sB_def sA_def updateBalance_ref updateBalance_fetches truthy_def initTracker_def)
  have sA': "sA\<lparr>listener := Some (Some ''0xme'', Some [], demoToken)\<rparr>
       = updateBalance (Some ''0xme'') (Some []) (Some demoToken)
           (initTracker\<lparr>listener := Some (Some ''0xme'', Some [], demoToken)\<rparr>)"
    by (simp add: sA_def updateBalance_def Let_def initTracker_def truthy_def)
  from superseded_fetch_discarded [OF t t sA' sB_def refA refB, of 100 95]
  have "balance (balanceSettled 0 (Inr 100) (balanceSettled 1 (Inr 95) sB)) = 95"
    by simp
  moreover have "trackerRun initTracker
      [Render (Some ''0xme'') (Some []) (Some demoToken),
       Transfer demoToken ''0xme'' ''0xyou'' 5,
       BalanceResult 1 (Inr 95),
       BalanceResult 0 (Inr 100)] = balanceSettled 0 (Inr 100) (balanceSettled 1 (Inr 95) sB)"
    by (simp add: trackerRun_def tokenBalanceEffect_def Let_def truthy_def onTransfer_def
        updateBalance_listener sB_def sA_def)
  ultimately show ?thesis by simp
qed

lemma updateBalance_changes:
  assumes "truthy account \<or> truthy address"
  shows "updateBalance account address (Some c) s \<noteq> s"
proof
  assume "updateBalance account address (Some c) s = s"
  then have "length (fetches (updateBalance account address (Some c) s)) = length (fetches s)"
    by simp
  with assms show False
    by (simp add: updateBalance_fetches)
qed

text \<open>
  C9. \<^verbatim>\<open>onTransfer\<close> leaves the tracker as it is when neither the sender nor the receiver
  is the tracked account or the tracked address, and is \<^verbatim>\<open>updateBalance\<close> when one of them
  is. For the listener the effect registered, a \<^verbatim>\<open>Transfer\<close> event of the token changes
  the tracker (a new \<^verbatim>\<open>balanceOf\<close> query) exactly when the tracked account or address is
  the sender or the receiver.
\<close>

theorem onTransfer_refresh_iff:
  "(Some from \<noteq> account \<and> Some to \<noteq> account \<and> Some from \<noteq> address \<and> Some to \<noteq> address
      \<longrightarrow> onTransfer account address tokenContract from to v s = s)
   \<and> (Some from = account \<or> Some to = account \<or> Some from = address \<or> Some to = address
      \<longrightarrow> onTransfer account address tokenContract from to v s
            = updateBalance account address tokenContract s)
   \<and> (listener s = Some (account, address, c) \<and> (truthy account \<or> truthy address)
      \<longrightarrow> trackerStep s (Transfer c from to v)
            = onTransfer account address (Some c) from to v s
          \<and> (trackerStep s (Transfer c from to v) \<noteq> s
               \<longleftrightarrow> Some from = account \<or> Some to = account
                   \<or> Some from = address \<or> Some to = address))"
  using updateBalance_changes [of account address c s]
  by (auto simp: onTransfer_def)

theorem onTransfer_refresh_iff_witness:
  "trackerStep (trackerRun initTracker [Render (Some ''0xme'') (Some []) (Some demoToken)])
      (Transfer demoToken ''0xhim'' ''0xyou'' 5)
     = trackerRun initTracker [Render (Some ''0xme'') (Some []) (Some demoToken)]
   \<and> fetches (trackerStep (trackerRun initTracker [Render (Some ''0xme'') (Some []) (Some demoToken)])
      (Transfer demoToken ''0xhim'' ''0xme'' 5))
     = [\<lparr>cancelled = True, pending = True, query = BalanceOf demoToken (Some ''0xme'')\<rparr>,
        \<lparr>cancelled = False, pending = True, query = BalanceOf demoToken (Some ''0xme'')\<rparr>]"
proof -
  define s where "s = trackerRun initTracker [Render (Some ''0xme'') (Some []) (Some demoToken)]"
  have l: "listener s = Some (Some ''0xme'', Some [], demoToken)"
    by (simp add: s_def trackerRun_def tokenBalanceEffect_def Let_def truthy_def)
  have t: "truthy (Some ''0xme'') \<or> truthy (Some [])"
    by (simp add: truthy_def)
  from onTransfer_refresh_iff [of "''0xhim''" "Some ''0xme''" "''0xyou''" "Some []" "Some demoToken" 5 s demoToken] l t
  have one: "trackerStep s (Transfer demoToken ''0xhim'' ''0xyou'' 5) = s"
    by simp
  from onTransfer_refresh_iff [of "''0xhim''" "Some ''0xme''" "''0xme''" "Some []" "Some demoToken" 5 s demoToken] l t
  have "trackerStep s (Transfer demoToken ''0xhim'' ''0xme'' 5)
          = updateBalance (Some ''0xme'') (Some []) (Some demoToken) s"
    by simp
  moreover have "fetches (updateBalance (Some ''0xme'') (Some []) (Some demoToken) s)
     = [\<lparr>cancelled = True, pending = True, query = BalanceOf demoToken (Some ''0xme'')\<rparr>,
        \<lparr>cancelled = False, pending = True, query = BalanceOf demoToken (Some ''0xme'')\<rparr>]"
    by (simp add: s_def trackerRun_def tokenBalanceEffect_def Let_def truthy_def
        updateBalance_def initTracker_def cancelFetch_def)
  ultimately show ?thesis
    using one by (simp add: s_def)
qed

section \<open>Price oracle: the loading flag\<close>

lemma pricingRun_Cons: "pricingRun s (ev # evs) = pricingRun (pricingStep s ev) evs"
  by (simp add: pricingRun_def)

lemma pricingRun_Nil: "pricingRun s [] = s"
  by (simp add: pricingRun_def)

lemma pricingRun_snoc: "pricingRun s (evs @ [ev]) = pricingStep (pricingRun s evs) ev"
  by (simp add: pricingRun_def)

lemma demo_awaiting_supply:
  "pricingRun initPricing [demoRender] =
     \<lparr>loading = True, price = - 1,
      runs = [\<lparr>cancelled = False, retryTimer = None, phase = AwaitSupply,
               closed = Inputs 10 demoANJ 500 demoBancor (Some 250000) True\<rparr>],
      cleanup = Some 0, requests = [TotalSupply demoANJ]\<rparr>"
  by (simp add: pricingRun_def demoRender_def bondingCurvePriceEffect_def runCleanup_def
      initPricing_def getSalePrice_def Let_def bigNum_def orDefault_def)


lemma demo_first_delay:
  "pricingRun initPricing [demoRender, SupplyResult 0 (Inl (Rejected ''timeout''))] =
     \<lparr>loading = True, price = - 1,
      runs = [\<lparr>cancelled = False, retryTimer = Some 1000, phase = Idle,
               closed = Inputs 10 demoANJ 500 demoBancor (Some 250000) True\<rparr>],
      cleanup = Some 0, requests = [TotalSupply demoANJ]\<rparr>"
  using pricingRun_snoc [of initPricing "[demoRender]" "SupplyResult 0 (Inl (Rejected ''timeout''))"]
  unfolding demo_awaiting_supply
  by (simp add: supplySettled_def catchFailure_def RETRY_EVERY_def)

lemma demo_second_attempt:
  "pricingRun initPricing
     [demoRender, SupplyResult 0 (Inl (Rejected ''timeout'')), RetryTimeout 0,
      SupplyResult 0 (Inr 1000)] =
     \<lparr>loading = True, price = - 1,
      runs = [\<lparr>cancelled = False, retryTimer = None, phase = AwaitPrice 1000,
               closed = Inputs 10 demoANJ 500 demoBancor (Some 250000) True\<rparr>],
      cleanup = Some 0,
      requests = [TotalSupply demoANJ, TotalSupply demoANJ,
                  CalculatePurchaseReturn demoBancor 1000 500 (Some 250000) 10]\<rparr>"
proof -
  have "pricingRun initPricing
          [demoRender, SupplyResult 0 (Inl (Rejected ''timeout'')), RetryTimeout 0] =
     \<lparr>loading = True, price = - 1,
      runs = [\<lparr>cancelled = False, retryTimer = None, phase = AwaitSupply,
               closed = Inputs 10 demoANJ 500 demoBancor (Some 250000) True\<rparr>],
      cleanup = Some 0, requests = [TotalSupply demoANJ, TotalSupply demoANJ]\<rparr>"
    using pricingRun_snoc [of initPricing
        "[demoRender, SupplyResult 0 (Inl (Rejected ''timeout''))]" "RetryTimeout 0"]
    unfolding demo_first_delay
    by (simp add: timerFired_def getSalePrice_def)
  with pricingRun_snoc [of initPricing
      "[demoRender, SupplyResult 0 (Inl (Rejected ''timeout'')), RetryTimeout 0]"
      "SupplyResult 0 (Inr 1000)"]
  show ?thesis
    by (simp add: supplySettled_def)
qed

lemma demo_second_delay:
  "pricingRun initPricing
     [demoRender, SupplyResult 0 (Inl (Rejected ''timeout'')), RetryTimeout 0,
      SupplyResult 0 (Inr 1000), PriceResult 0 (Inl (Rejected ''revert''))] =
     \<lparr>loading = True, price = - 1,
      runs = [\<lparr>cancelled = False, retryTimer = Some 1000, phase = Idle,
               closed = Inputs 10 demoANJ 500 demoBancor (Some 250000) True\<rparr>],
      cleanup = Some 0,
      requests = [TotalSupply demoANJ, TotalSupply demoANJ,
                  CalculatePurchaseReturn demoBancor 1000 500 (Some 250000) 10]\<rparr>"
  using pricingRun_snoc [of initPricing
      "[demoRender, SupplyResult 0 (Inl (Rejected ''timeout'')), RetryTimeout 0,
        SupplyResult 0 (Inr 1000)]" "PriceResult 0 (Inl (Rejected ''revert''))"]
  unfolding demo_second_attempt
  by (simp add: priceSettled_def catchFailure_def RETRY_EVERY_def)

lemma two_failures_then_success:
  "pricingRun initPricing
     [demoRender, SupplyResult 0 (Inl (Rejected ''timeout'')), RetryTimeout 0,
      SupplyResult 0 (Inr 1000), PriceResult 0 (Inl (Rejected ''revert'')), RetryTimeout 0,
      SupplyResult 0 (Inr 1000), PriceResult 0 (Inr 42)] =
     \<lparr>loading = False, price = 42,
      runs = [\<lparr>cancelled = False, retryTimer = None, phase = Idle,
               closed = Inputs 10 demoANJ 500 demoBancor (Some 250000) True\<rparr>],
      cleanup = Some 0,
      requests = [TotalSupply demoANJ, TotalSupply demoANJ,
                  CalculatePurchaseReturn demoBancor 1000 500 (Some 250000) 10,
                  TotalSupply demoANJ,
                  CalculatePurchaseReturn demoBancor 1000 500 (Some 250000) 10]\<rparr>"
proof -
  let ?evs = "[demoRender, SupplyResult 0 (Inl (Rejected ''timeout'')), RetryTimeout 0,
      SupplyResult 0 (Inr 1000), PriceResult 0 (Inl (Rejected ''revert''))]"
  have a: "pricingRun initPricing (?evs @ [RetryTimeout 0]) =
     \<lparr>loading = True, price = - 1,
      runs = [\<lparr>cancelled = False, retryTimer = None, phase = AwaitSupply,
               closed = Inputs 10 demoANJ 500 demoBancor (Some 250000) True\<rparr>],
      cleanup = Some 0,
      requests = [TotalSupply demoANJ, TotalSupply demoANJ,
                  CalculatePurchaseReturn demoBancor 1000 500 (Some 250000) 10,
                  TotalSupply demoANJ]\<rparr>"
    unfolding pricingRun_snoc demo_second_delay
    by (simp add: timerFired_def getSalePrice_def)
  have b: "pricingRun initPricing ((?evs @ [RetryTimeout 0]) @ [SupplyResult 0 (Inr 1000)]) =
     \<lparr>loading = True, price = - 1,
      runs = [\<lparr>cancelled = False, retryTimer = None, phase = AwaitPrice 1000,
               closed = Inputs 10 demoANJ 500 demoBancor (Some 250000) True\<rparr>],
      cleanup = Some 0,
      requests = [TotalSupply demoANJ, TotalSupply demoANJ,
                  CalculatePurchaseReturn demoBancor 1000 500 (Some 250000) 10,
                  TotalSupply demoANJ,
                  CalculatePurchaseReturn demoBancor 1000 500 (Some 250000) 10]\<rparr>"
    unfolding pricingRun_snoc [of _ "?evs @ [RetryTimeout 0]"] a
    by (simp add: supplySettled_def)
  have "pricingRun initPricing
          (((?evs @ [RetryTimeout 0]) @ [SupplyResult 0 (Inr 1000)]) @ [PriceResult 0 (Inr 42)]) =
     \<lparr>loading = False, price = 42,
      runs = [\<lparr>cancelled = False, retryTimer = None, phase = Idle,
               closed = Inputs 10 demoANJ 500 demoBancor (Some 250000) True\<rparr>],
      cleanup = Some 0,
      requests = [TotalSupply demoANJ, TotalSupply demoANJ,
                  CalculatePurchaseReturn demoBancor 1000 500 (Some 250000) 10,
                  TotalSupply demoANJ,
                  CalculatePurchaseReturn demoBancor 1000 500 (Some 250000) 10]\<rparr>"
    unfolding pricingRun_snoc [of _ "(?evs @ [RetryTimeout 0]) @ [SupplyResult 0 (Inr 1000)]"] b
    by (simp add: priceSettled_def Let_def)
  then show ?thesis by simp
qed



























end
